theory Spec2Isabelle
  imports Complex_Main
begin

section \<open>Python values, errors and time\<close>

text \<open>
  The embedding follows \<^verbatim>\<open>src/main.py\<close>. Everything the script obtains from
  outside (the yfinance \<^verbatim>\<open>Ticker\<close> object, the clock, the time zone database) is an
  input of the model. An exception is a value: a computation that may raise returns
  \<open>error + 'a\<close>, with \<open>Inl\<close> for the exception. Only subclasses of \<^verbatim>\<open>Exception\<close> are
  modelled (those are what the handlers of the script catch); the string is \<^verbatim>\<open>str(e)\<close>.

  Dividend amounts and prices are IEEE doubles in the script; the model computes with
  rational numbers, so the rounding error of the floating point operations, NaN and
  infinities are not modelled.
\<close>

datatype error = Error string

fun str_of :: "error \<Rightarrow> string" where
  "str_of (Error s) = s"

text \<open>
  Points in time are integers: nanoseconds since 1970-01-01T00:00. An instant counts them
  in UTC, a wall clock reading counts them on the local calendar. A pandas \<^verbatim>\<open>Timestamp\<close>
  is naive (\<^verbatim>\<open>tz is None\<close>: a wall clock reading only) or aware (an instant and the UTC
  offset of its zone at that instant).
\<close>

datatype timestamp = Naive int | Aware int int

text \<open>
  The values met in the profile mapping and in the cells of the calendar table:
  \<^verbatim>\<open>None\<close>, a number, a string, a \<^verbatim>\<open>Timestamp\<close>.
\<close>

datatype pyval = PNone | PNum rat | PStr string | PTimestamp timestamp

fun truthy :: "pyval \<Rightarrow> bool" where
  "truthy PNone = False"
| "truthy (PNum r) = (r \<noteq> 0)"
| "truthy (PStr s) = (s \<noteq> [])"
| "truthy (PTimestamp t) = True"

definition dict_get :: "(string \<rightharpoonup> pyval) \<Rightarrow> string \<Rightarrow> pyval \<Rightarrow> pyval" where
  \<comment> \<open>\<^verbatim>\<open>d.get(key, default)\<close>\<close>
  "dict_get d k dflt = (case d k of None \<Rightarrow> dflt | Some v \<Rightarrow> v)"

definition day_ns :: int where
  "day_ns = 86400 * 1000000000"

definition days_180 :: int where
  \<comment> \<open>\<^verbatim>\<open>timedelta(days=180)\<close>\<close>
  "days_180 = 180 * day_ns"

fun wall :: "timestamp \<Rightarrow> int" where
  "wall (Naive w) = w"
| "wall (Aware u off) = u + off"

definition date_of :: "timestamp \<Rightarrow> int" where
  \<comment> \<open>the calendar day shown by the timestamp, as days since 1970-01-01\<close>
  "date_of t = wall t div day_ns"

text \<open>
  The zone America/New\_York is used through two library calls, which are inputs of the
  model: pandas' \<^verbatim>\<open>tz_localize(ny_tz)\<close>, which maps a wall clock reading to its instant
  and raises for a reading that does not exist or is ambiguous at a daylight saving
  change, and pytz' \<^verbatim>\<open>ny_tz.localize(dt)\<close>, which never raises.
\<close>

record zone =
  tz_localize :: "int \<Rightarrow> error + int"
  localize :: "int \<Rightarrow> int"

section \<open>Formatting\<close>

definition digit :: "nat \<Rightarrow> char" where
  "digit n = ''0123456789'' ! n"

fun str_of_nat :: "nat \<Rightarrow> string" where
  "str_of_nat n = (if n < 10 then [digit n] else str_of_nat (n div 10) @ [digit (n mod 10)])"

declare str_of_nat.simps [simp del]

definition zero_pad :: "nat \<Rightarrow> string \<Rightarrow> string" where
  "zero_pad w s = replicate (w - length s) (CHR ''0'') @ s"

definition round_half_even :: "rat \<Rightarrow> int" where
  "round_half_even x =
     (let f = \<lfloor>x\<rfloor>; r = x - of_int f
      in if r < 1 / 2 then f
         else if 1 / 2 < r then f + 1
         else if even f then f else f + 1)"

definition format_2f :: "rat \<Rightarrow> string" where
  \<comment> \<open>\<^verbatim>\<open>f"{x:.2f}"\<close>\<close>
  "format_2f x =
     (let n = nat (round_half_even (\<bar>x\<bar> * 100))
      in (if x < 0 then ''-'' else '''') @ str_of_nat (n div 100) @ ''.''
           @ zero_pad 2 (str_of_nat (n mod 100)))"

text \<open>
  \<^verbatim>\<open>strftime('%Y-%m-%d')\<close> of a day number, for the years 1000 to 9999 (a nanosecond
  \<^verbatim>\<open>Timestamp\<close> lies between 1677 and 2262): year, month and day of the proleptic
  Gregorian calendar.
\<close>

definition civil_from_days :: "int \<Rightarrow> int \<times> int \<times> int" where
  "civil_from_days d =
     (let z = d + 719468;
          era = z div 146097;
          doe = z mod 146097;
          yoe = (doe - doe div 1460 + doe div 36524 - doe div 146096) div 365;
          doy = doe - (365 * yoe + yoe div 4 - yoe div 100);
          mp = (5 * doy + 2) div 153;
          dd = doy - (153 * mp + 2) div 5 + 1;
          m = (if mp < 10 then mp + 3 else mp - 9);
          y = yoe + era * 400 + (if m \<le> 2 then 1 else 0)
      in (y, m, dd))"

definition strftime_ymd :: "int \<Rightarrow> string" where
  "strftime_ymd d =
     (case civil_from_days d of (y, m, dd) \<Rightarrow>
        zero_pad 4 (str_of_nat (nat y)) @ ''-'' @ zero_pad 2 (str_of_nat (nat m)) @ ''-''
          @ zero_pad 2 (str_of_nat (nat dd)))"

section \<open>What the script reads from outside\<close>

text \<open>
  \<^verbatim>\<open>ticker.calendar\<close>: some object that is not a \<^verbatim>\<open>DataFrame\<close>, or a
  \<^verbatim>\<open>DataFrame\<close> given by its rows, each a label and the cells of the row (row labels are
  taken to be unique, so that \<^verbatim>\<open>.loc[label]\<close> is one row).
\<close>

datatype calendar_src = CalOther | CalFrame "(string \<times> pyval list) list"

text \<open>
  \<^verbatim>\<open>ticker.earnings_dates\<close>: not a \<^verbatim>\<open>DataFrame\<close>, or a \<^verbatim>\<open>DataFrame\<close> given by its
  \<^verbatim>\<open>DatetimeIndex\<close> in table order. The index has one time zone for all its entries or
  none: it is a list of wall clock readings, or a list of instants with their offsets.
\<close>

datatype dtindex = NaiveIndex "int list" | AwareIndex "(int \<times> int) list"

datatype earnings_src = EarnOther | EarnFrame dtindex

text \<open>
  The attributes of the \<^verbatim>\<open>Ticker\<close> object are properties that fetch on access, so each
  either raises or returns. \<^verbatim>\<open>ticker.dividends\<close> is a series of amounts indexed by
  timestamps, in the order of the series. \<open>now_earnings\<close> and \<open>now_validate\<close> are what
  the two calls \<^verbatim>\<open>datetime.now(ny_tz)\<close> return, as instants.
\<close>

record upstream =
  new_ticker :: "error + unit"
  info :: "error + (string \<rightharpoonup> pyval)"
  calendar :: "error + calendar_src"
  earnings_dates :: "error + earnings_src"
  dividends :: "error + (timestamp \<times> rat) list"
  ny_tz :: zone
  now_earnings :: int
  now_validate :: int

section \<open>The normalizer \<^verbatim>\<open>get_stock_info\<close>\<close>

subsection \<open>Company profile\<close>

definition get_info :: "upstream \<Rightarrow> pyval \<times> (string \<rightharpoonup> pyval)" where
  \<comment> \<open>the new values of \<^verbatim>\<open>company_name\<close> and \<^verbatim>\<open>info\<close>\<close>
  "get_info up =
     (case info up of
        Inl e \<Rightarrow> (PStr ''N/A'', Map.empty)
      | Inr d \<Rightarrow> (dict_get d ''shortName'' (PStr ''N/A''), d))"

subsection \<open>Earnings date\<close>

definition calendar_method :: "upstream \<Rightarrow> pyval" where
  \<comment> \<open>Method 1; its bare \<^verbatim>\<open>except: pass\<close> leaves \<^verbatim>\<open>next_earnings_date\<close> at \<^verbatim>\<open>None\<close>.
      \<^verbatim>\<open>.iloc[0]\<close> raises on a row without cells.\<close>
  "calendar_method up =
     (case calendar up of
        Inl e \<Rightarrow> PNone
      | Inr CalOther \<Rightarrow> PNone
      | Inr (CalFrame rows) \<Rightarrow>
          (case map_of rows ''Earnings Date'' of
             None \<Rightarrow> PNone
           | Some [] \<Rightarrow> PNone
           | Some (v # vs) \<Rightarrow> v))"

fun localize_all :: "zone \<Rightarrow> int list \<Rightarrow> error + int list" where
  \<comment> \<open>\<^verbatim>\<open>index.tz_localize(ny_tz)\<close>: raises when one entry cannot be localized\<close>
  "localize_all z [] = Inr []"
| "localize_all z (w # ws) =
     (case tz_localize z w of
        Inl e \<Rightarrow> Inl e
      | Inr u \<Rightarrow> (case localize_all z ws of Inl e \<Rightarrow> Inl e | Inr us \<Rightarrow> Inr (u # us)))"

definition future_dates :: "zone \<Rightarrow> int \<Rightarrow> dtindex \<Rightarrow> error + timestamp list" where
  \<comment> \<open>the index of the rows selected by the mask \<^verbatim>\<open>index > current_date\<close>, in table order\<close>
  "future_dates z now idx =
     (case idx of
        AwareIndex xs \<Rightarrow> Inr (map (\<lambda>(u, off). Aware u off) (filter (\<lambda>(u, off). now < u) xs))
      | NaiveIndex ws \<Rightarrow>
          (case localize_all z ws of
             Inl e \<Rightarrow> Inl e
           | Inr us \<Rightarrow> Inr (map (\<lambda>(w, u). Naive w) (filter (\<lambda>(w, u). now < u) (zip ws us)))))"

definition index_empty :: "dtindex \<Rightarrow> bool" where
  "index_empty idx = (case idx of NaiveIndex ws \<Rightarrow> ws = [] | AwareIndex xs \<Rightarrow> xs = [])"

definition earnings_dates_method :: "upstream \<Rightarrow> error + pyval option" where
  \<comment> \<open>Method 2: \<open>Inr (Some v)\<close> when it assigns \<open>v\<close> to \<^verbatim>\<open>next_earnings_date\<close>, \<open>Inr None\<close>
      when it assigns nothing\<close>
  "earnings_dates_method up =
     (case earnings_dates up of
        Inl e \<Rightarrow> Inl e
      | Inr EarnOther \<Rightarrow> Inr None
      | Inr (EarnFrame idx) \<Rightarrow>
          if index_empty idx then Inr None
          else (case future_dates (ny_tz up) (now_earnings up) idx of
                  Inl e \<Rightarrow> Inl e
                | Inr [] \<Rightarrow> Inr None
                | Inr (t # ts) \<Rightarrow> Inr (Some (PTimestamp t))))"

definition get_earnings_date :: "upstream \<Rightarrow> pyval" where
  \<comment> \<open>\<^verbatim>\<open>next_earnings_date\<close> after the earnings block; its handler only prints\<close>
  "get_earnings_date up =
     (let v = calendar_method up
      in if truthy v then v
         else (case earnings_dates_method up of
                 Inl e \<Rightarrow> v
               | Inr None \<Rightarrow> v
               | Inr (Some t) \<Rightarrow> t))"

subsection \<open>Dividends\<close>

definition annual_div_rate :: "rat list \<Rightarrow> rat" where
  \<comment> \<open>line 78, for a series that is not empty\<close>
  "annual_div_rate amounts =
     (if 4 \<le> length amounts then sum_list (take 4 amounts)
      else sum_list amounts * (4 / of_nat (length amounts)))"

definition latest_price :: "(string \<rightharpoonup> pyval) \<Rightarrow> pyval" where
  "latest_price d = dict_get d ''regularMarketPrice'' (dict_get d ''currentPrice'' PNone)"

definition dividend_yield :: "rat \<Rightarrow> pyval \<Rightarrow> error + rat option" where
  \<comment> \<open>lines 80 and 81: dividing a float by a string or a \<^verbatim>\<open>Timestamp\<close> raises TypeError\<close>
  "dividend_yield rate price =
     (if truthy price then
        (case price of
           PNum p \<Rightarrow> Inr (Some (rate / p * 100))
         | _ \<Rightarrow> Inl (Error ''unsupported operand type(s) for /''))
      else Inr None)"

definition get_dividend_info :: "upstream \<Rightarrow> (string \<rightharpoonup> pyval) \<Rightarrow> string \<times> int option \<times> rat option" where
  \<comment> \<open>the new values of \<^verbatim>\<open>dividend_offered\<close>, \<^verbatim>\<open>ex_dividend_date\<close> and
      \<^verbatim>\<open>annual_dividend_yield\<close>. An exception leaves the block with the assignments made
      so far. \<^verbatim>\<open>ex_dividend_date\<close> is kept as the day number; the script keeps the
      text \<^verbatim>\<open>strftime('%Y-%m-%d')\<close> of that day.\<close>
  "get_dividend_info up d =
     (case dividends up of
        Inl e \<Rightarrow> (''No'', None, None)
      | Inr divs \<Rightarrow>
          if divs = [] then (''No'', None, None)
          else (case dividend_yield (annual_div_rate (map snd divs)) (latest_price d) of
                  Inl e \<Rightarrow> (''Yes'', None, None)
                | Inr y \<Rightarrow> (''Yes'', Some (date_of (fst (last divs))), y)))"

subsection \<open>Dates in the distant future\<close>

definition max_future_date :: "upstream \<Rightarrow> int" where
  \<comment> \<open>\<^verbatim>\<open>current_date + timedelta(days=180)\<close>: pytz keeps the offset of \<^verbatim>\<open>current_date\<close>,
      so the sum is the instant 180 times 24 hours later\<close>
  "max_future_date up = now_validate up + days_180"

definition to_utc :: "zone \<Rightarrow> timestamp \<Rightarrow> error + int" where
  \<comment> \<open>lines 98 to 101\<close>
  "to_utc z t = (case t of Aware u off \<Rightarrow> Inr u | Naive w \<Rightarrow> tz_localize z w)"

definition validate_earnings :: "upstream \<Rightarrow> pyval \<Rightarrow> error + pyval" where
  \<comment> \<open>lines 95 to 105; no handler around them\<close>
  "validate_earnings up v =
     (case v of
        PTimestamp t \<Rightarrow>
          (case to_utc (ny_tz up) t of
             Inl e \<Rightarrow> Inl e
           | Inr u \<Rightarrow> Inr (if max_future_date up < u then PNone else v))
      | _ \<Rightarrow> Inr v)"

definition validate_ex_dividend :: "upstream \<Rightarrow> int option \<Rightarrow> int option" where
  \<comment> \<open>lines 107 to 114: \<^verbatim>\<open>strptime\<close> reads the text of line 85 back as midnight of the
      same day, so its handler is never entered\<close>
  "validate_ex_dividend up x =
     (case x of
        None \<Rightarrow> None
      | Some d \<Rightarrow> if max_future_date up < localize (ny_tz up) (d * day_ns) then None else Some d)"

subsection \<open>The record\<close>

type_synonym pydict = "(string \<times> pyval) list"

definition get_stock_info_body :: "string \<Rightarrow> upstream \<Rightarrow> error + pydict" where
  \<comment> \<open>lines 19 to 123\<close>
  "get_stock_info_body ticker_symbol up =
     (case new_ticker up of
        Inl e \<Rightarrow> Inl e
      | Inr u \<Rightarrow>
          (case get_info up of (company_name, d) \<Rightarrow>
             (case (get_earnings_date up, get_dividend_info up d) of
                (resolved, dividend_offered, ex_date, annual_dividend_yield) \<Rightarrow>
                (case validate_earnings up resolved of
                   Inl e \<Rightarrow> Inl e
                 | Inr next_earnings_date \<Rightarrow>
                     Inr [(''Stock Symbol'', PStr ticker_symbol),
                          (''Company Name'', company_name),
                          (''Next Earnings Report Date'',
                             (case next_earnings_date of
                                PTimestamp t \<Rightarrow> PStr (strftime_ymd (date_of t))
                              | _ \<Rightarrow> PStr ''N/A'')),
                          (''Dividend Offered'', PStr dividend_offered),
                          (''Ex-Dividend Date'',
                             (case validate_ex_dividend up ex_date of
                                Some day \<Rightarrow> PStr (strftime_ymd day)
                              | None \<Rightarrow> PStr ''N/A'')),
                          (''Annual Dividend Yield'',
                             (case annual_dividend_yield of
                                Some y \<Rightarrow> if y \<noteq> 0 then PStr (format_2f y @ ''%'') else PStr ''N/A''
                              | None \<Rightarrow> PStr ''N/A''))]))))"

definition failed_record :: "string \<Rightarrow> pydict" where
  \<comment> \<open>lines 127 to 134\<close>
  "failed_record ticker_symbol =
     [(''Stock Symbol'', PStr ticker_symbol),
      (''Company Name'', PStr ''N/A''),
      (''Next Earnings Report Date'', PStr ''N/A''),
      (''Dividend Offered'', PStr ''N/A''),
      (''Ex-Dividend Date'', PStr ''N/A''),
      (''Annual Dividend Yield'', PStr ''N/A'')]"

definition get_stock_info :: "string \<Rightarrow> upstream \<Rightarrow> error + pydict" where
  \<comment> \<open>the outer \<^verbatim>\<open>try\<close> with its handler \<^verbatim>\<open>except Exception\<close>\<close>
  "get_stock_info ticker_symbol up =
     (case get_stock_info_body ticker_symbol up of
        Inl e \<Rightarrow> Inr (failed_record ticker_symbol)
      | Inr r \<Rightarrow> Inr r)"

definition field :: "pydict \<Rightarrow> string \<Rightarrow> pyval option" where
  \<comment> \<open>the value stored under a key of the returned dictionary\<close>
  "field r k = map_of r k"

section \<open>The batch driver \<^verbatim>\<open>main\<close>\<close>

definition stock_symbols :: "string list" where
  "stock_symbols = [''AAPL'', ''MSFT'', ''GOOGL'', ''AMZN'', ''TSLA'', ''META'', ''V'', ''JPM'',
     ''DIS'', ''NFLX'']"

text \<open>
  A run of the driver: the lines that \<^verbatim>\<open>main\<close> itself prints (the lines printed inside
  \<^verbatim>\<open>get_stock_info\<close> are left out), the rows of the frame on which \<^verbatim>\<open>to_csv\<close> was
  called for \<^verbatim>\<open>stock_data.csv\<close> (\<open>None\<close> when it was not called), and \<^verbatim>\<open>results\<close>.
\<close>

record run =
  stdout :: "string list"
  csv_rows :: "pydict list option"
  results :: "pydict list"

fun main_loop :: "(string \<Rightarrow> upstream) \<Rightarrow> nat \<Rightarrow> nat \<Rightarrow> string list \<Rightarrow> pydict list \<times> string list" where
  \<comment> \<open>lines 144 to 151, from position \<open>idx\<close> on: the records appended and the lines printed\<close>
  "main_loop market total_stocks idx [] = ([], [])"
| "main_loop market total_stocks idx (symbol # rest) =
     (case main_loop market total_stocks (Suc idx) rest of (rs, out) \<Rightarrow>
        (case get_stock_info symbol (market symbol) of
           Inr r \<Rightarrow>
             (r # rs,
              (''Processed '' @ symbol @ '' ('' @ str_of_nat idx @ ''/'' @ str_of_nat total_stocks @ '')'') # out)
         | Inl e \<Rightarrow> (rs, (''Failed to process '' @ symbol @ '': '' @ str_of e) # out)))"

definition main_on :: "string list \<Rightarrow> (string \<Rightarrow> upstream) \<Rightarrow> error + unit \<Rightarrow> run" where
  \<comment> \<open>\<^verbatim>\<open>main\<close> for a list of symbols; \<open>to_csv\<close> is what \<^verbatim>\<open>df.to_csv\<close> does when called\<close>
  "main_on symbols market to_csv =
     (case main_loop market (length symbols) 1 symbols of (rs, out) \<Rightarrow>
        if rs \<noteq> [] then
          \<lparr>stdout = out @ [case to_csv of
                             Inr u \<Rightarrow> ''Data saved to stock_data.csv''
                           | Inl e \<Rightarrow> ''Error saving to CSV: '' @ str_of e],
           csv_rows = Some rs, results = rs\<rparr>
        else \<lparr>stdout = out @ [''No data was collected''], csv_rows = None, results = rs\<rparr>)"

definition main :: "(string \<Rightarrow> upstream) \<Rightarrow> error + unit \<Rightarrow> run" where
  "main = main_on stock_symbols"

section \<open>Inputs for the examples\<close>

definition hour_ns :: int where
  "hour_ns = 3600 * 1000000000"

text \<open>
  America/New\_York for the wall clock readings of the year 2025: five hours behind UTC
  until 9 March, 02:00, which is followed by an hour that does not exist, then four hours
  behind until 2 November, 01:00, which is followed by an hour that occurs twice, then five
  hours behind again. Day 20156 is 9 March 2025 and day 20394 is 2 November 2025.
\<close>

definition ny_2025 :: zone where
  "ny_2025 =
     \<lparr>tz_localize = (\<lambda>w.
        if w < 20156 * day_ns + 2 * hour_ns then Inr (w + 5 * hour_ns)
        else if w < 20156 * day_ns + 3 * hour_ns then Inl (Error ''NonExistentTimeError'')
        else if w < 20394 * day_ns + hour_ns then Inr (w + 4 * hour_ns)
        else if w < 20394 * day_ns + 2 * hour_ns then Inl (Error ''AmbiguousTimeError'')
        else Inr (w + 5 * hour_ns)),
      localize = (\<lambda>w.
        if w < 20156 * day_ns + 3 * hour_ns then w + 5 * hour_ns
        else if w < 20394 * day_ns + hour_ns then w + 4 * hour_ns
        else w + 5 * hour_ns)\<rparr>"

text \<open>
  A symbol for which every fetch raises, on 15 January 2025 (day 20103) at 15:00 UTC.
  The other examples change single components of it.
\<close>

definition offline :: upstream where
  "offline =
     \<lparr>new_ticker = Inr (),
      info = Inl (Error ''HTTP Error 404''),
      calendar = Inl (Error ''HTTP Error 404''),
      earnings_dates = Inl (Error ''HTTP Error 404''),
      dividends = Inl (Error ''HTTP Error 404''),
      ny_tz = ny_2025,
      now_earnings = 20103 * day_ns + 15 * hour_ns,
      now_validate = 20103 * day_ns + 15 * hour_ns\<rparr>"

definition at_midnight_ny :: "int \<Rightarrow> timestamp" where
  \<comment> \<open>midnight of a winter day in New York, as an aware timestamp\<close>
  "at_midnight_ny day = Aware (day * day_ns + 5 * hour_ns) (- 5 * hour_ns)"

text \<open>
  A calendar with an earnings date on 12 December 2025 (day 20434), 16:00, and a dividend
  history whose last payment is dated that day: both more than 180 days after 15 January.
\<close>

definition far_dates :: upstream where
  "far_dates = offline\<lparr>calendar := Inr (CalFrame
             [(''Earnings Date'', [PTimestamp (Naive (20434 * day_ns + 16 * hour_ns))])]),
           dividends := Inr [(at_midnight_ny 20035, 1 / 4), (at_midnight_ny 20434, 1 / 4)]\<rparr>"

text \<open>
  A table of earnings dates listed newest first, as a table of past and coming events
  printed from the top: 1 May 2025 (day 20209), 30 January 2025 (day 20118) and
  30 October 2024 (day 20026), each at 16:00 in New York.
\<close>

definition newest_first :: upstream where
  "newest_first =
     offline\<lparr>earnings_dates := Inr (EarnFrame (AwareIndex
               [(20209 * day_ns + 20 * hour_ns, - 4 * hour_ns),
                (20118 * day_ns + 21 * hour_ns, - 5 * hour_ns),
                (20026 * day_ns + 20 * hour_ns, - 4 * hour_ns)]))\<rparr>"

section \<open>How the record is put together\<close>


lemma body_Inl_iff:
  "isl (get_stock_info_body s up) \<longleftrightarrow>
     isl (new_ticker up) \<or> isl (validate_earnings up (get_earnings_date up))"
  by (simp add: get_stock_info_body_def split: sum.splits prod.splits)

lemma dividend_offered_cases:
  "fst (get_dividend_info up d) =
     (if (\<exists>divs. dividends up = Inr divs \<and> divs \<noteq> []) then ''Yes'' else ''No'')"
  by (auto simp add: get_dividend_info_def split: sum.splits)

lemma body_fields:
  assumes "get_stock_info_body s up = Inr r"
  shows "map fst r = [''Stock Symbol'', ''Company Name'', ''Next Earnings Report Date'',
           ''Dividend Offered'', ''Ex-Dividend Date'', ''Annual Dividend Yield'']"
    and "field r ''Stock Symbol'' = Some (PStr s)"
    and "field r ''Company Name'' = Some (fst (get_info up))"
    and "field r ''Dividend Offered'' =
           Some (PStr (fst (get_dividend_info up (snd (get_info up)))))"
  using assms
  by (auto simp add: get_stock_info_body_def field_def split: sum.splits prod.splits)

lemma body_Inr:
  assumes "new_ticker up = Inr u" and "validate_earnings up (get_earnings_date up) = Inr v"
  shows "get_stock_info_body s up =
     Inr [(''Stock Symbol'', PStr s),
          (''Company Name'', fst (get_info up)),
          (''Next Earnings Report Date'',
             (case v of PTimestamp t \<Rightarrow> PStr (strftime_ymd (date_of t)) | _ \<Rightarrow> PStr ''N/A'')),
          (''Dividend Offered'', PStr (fst (get_dividend_info up (snd (get_info up))))),
          (''Ex-Dividend Date'',
             (case validate_ex_dividend up (fst (snd (get_dividend_info up (snd (get_info up))))) of
                Some day \<Rightarrow> PStr (strftime_ymd day)
              | None \<Rightarrow> PStr ''N/A'')),
          (''Annual Dividend Yield'',
             (case snd (snd (get_dividend_info up (snd (get_info up)))) of
                Some y \<Rightarrow> if y \<noteq> 0 then PStr (format_2f y @ ''%'') else PStr ''N/A''
              | None \<Rightarrow> PStr ''N/A''))]"
  using assms by (simp add: get_stock_info_body_def split: prod.splits)

lemma body_cases:
  obtains e where "get_stock_info_body s up = Inl e" "get_stock_info s up = Inr (failed_record s)"
  | u v where "new_ticker up = Inr u" "validate_earnings up (get_earnings_date up) = Inr v"
      "get_stock_info s up = get_stock_info_body s up"
proof (cases "get_stock_info_body s up")
  case (Inl e)
  then show ?thesis using that(1) by (simp add: get_stock_info_def)
next
  case (Inr r)
  then have "\<not> isl (get_stock_info_body s up)" by simp
  then obtain u v where "new_ticker up = Inr u" "validate_earnings up (get_earnings_date up) = Inr v"
    unfolding body_Inl_iff by (metis sum.collapse(2) isl_def sum.exhaust_sel)
  then show ?thesis using that(2) Inr by (simp add: get_stock_info_def)
qed

lemma strftime_ymd_nonempty: "strftime_ymd d \<noteq> []"
  by (simp add: strftime_ymd_def split: prod.splits)

lemma yield_unset:
  assumes "snd (snd (get_dividend_info up (snd (get_info up)))) = None
           \<or> snd (snd (get_dividend_info up (snd (get_info up)))) = Some 0"
  shows "\<exists>r. get_stock_info s up = Inr r \<and> field r ''Annual Dividend Yield'' = Some (PStr ''N/A'')"
proof (cases rule: body_cases [of s up])
  case (1 e)
  then show ?thesis by (simp add: failed_record_def field_def)
next
  case (2 u v)
  then show ?thesis
    using assms body_Inr [OF 2(1) 2(2), of s] by (auto simp add: field_def)
qed

lemma yield_of_dividends:
  assumes "dividends up = Inr divs" and "divs \<noteq> []"
  shows "snd (snd (get_dividend_info up d)) =
     (case dividend_yield (annual_div_rate (map snd divs)) (latest_price d) of
        Inl e \<Rightarrow> None | Inr y \<Rightarrow> y)"
  using assms by (simp add: get_dividend_info_def split: sum.splits)


lemma format_2f_2: "format_2f 2 = ''2.00''"
  by code_simp


section \<open>Dividend Offered\<close>

text \<open>
  Claim C3, as the script has it: \<^verbatim>\<open>get_stock_info\<close> returns a record whose field
  "Dividend Offered" is "Yes" when the dividend history was fetched and is not empty, "No"
  when its fetch raised or the history is empty, and "N/A" when an exception left the body
  of the function and the outer handler built the record.
\<close>

theorem dividend_offered_values:
  "\<exists>r. get_stock_info s up = Inr r \<and>
       field r ''Dividend Offered'' =
         Some (PStr (if isl (get_stock_info_body s up) then ''N/A''
                     else if (\<exists>divs. dividends up = Inr divs \<and> divs \<noteq> []) then ''Yes''
                     else ''No''))"
proof (cases "get_stock_info_body s up")
  case (Inl e)
  then show ?thesis
    by (simp add: get_stock_info_def failed_record_def field_def)
next
  case (Inr r)
  then show ?thesis
    using body_fields(4) [OF Inr] dividend_offered_cases [of up "snd (get_info up)"]
    by (simp add: get_stock_info_def)
qed

text \<open>
  Claim C3 as stated fails where an exception escapes the inner handlers: when
  \<^verbatim>\<open>yf.Ticker\<close> raises, and when the calendar gives a naive timestamp at 9 March 2025,
  02:00, which \<^verbatim>\<open>tz_localize\<close> refuses at line 101. The field is "N/A" then.
\<close>

theorem dividend_offered_counterexample:
  "get_stock_info ''AAPL'' (offline\<lparr>new_ticker := Inl (Error ''ValueError'')\<rparr>)
     = Inr (failed_record ''AAPL'')
   \<and> get_stock_info ''AAPL''
        (offline\<lparr>calendar := Inr (CalFrame
           [(''Earnings Date'', [PTimestamp (Naive (20156 * day_ns + 2 * hour_ns))])])\<rparr>)
     = Inr (failed_record ''AAPL'')
   \<and> field (failed_record ''AAPL'') ''Dividend Offered'' = Some (PStr ''N/A'')
   \<and> field (failed_record ''AAPL'') ''Dividend Offered'' \<noteq> Some (PStr ''Yes'')
   \<and> field (failed_record ''AAPL'') ''Dividend Offered'' \<noteq> Some (PStr ''No'')"
  by code_simp

section \<open>The shape of the record\<close>

text \<open>
  Claim C4, as the script has it: for every symbol and every behaviour of the upstream
  source, \<^verbatim>\<open>get_stock_info\<close> returns (it does not raise) a record with exactly the six
  keys, in the order of the script. Stock Symbol is the input. Next Earnings Report Date,
  Dividend Offered, Ex-Dividend Date and Annual Dividend Yield are strings that are not
  empty: a value or the sentinel. Company Name is "N/A" when the outer handler built the
  record, when the profile fetch raised and when the profile has no key
  \<^verbatim>\<open>shortName\<close>; otherwise it is the value stored under that key, whatever it is.
\<close>

theorem six_fields_always:
  "\<exists>r. get_stock_info s up = Inr r \<and>
       map fst r = [''Stock Symbol'', ''Company Name'', ''Next Earnings Report Date'',
                    ''Dividend Offered'', ''Ex-Dividend Date'', ''Annual Dividend Yield''] \<and>
       field r ''Stock Symbol'' = Some (PStr s) \<and>
       field r ''Company Name'' =
         Some (if isl (get_stock_info_body s up) then PStr ''N/A''
               else (case info up of
                       Inl e \<Rightarrow> PStr ''N/A''
                     | Inr d \<Rightarrow> (case d ''shortName'' of None \<Rightarrow> PStr ''N/A'' | Some v \<Rightarrow> v))) \<and>
       (\<exists>a. field r ''Next Earnings Report Date'' = Some (PStr a) \<and> a \<noteq> []) \<and>
       (\<exists>a. field r ''Dividend Offered'' = Some (PStr a) \<and> a \<noteq> []) \<and>
       (\<exists>a. field r ''Ex-Dividend Date'' = Some (PStr a) \<and> a \<noteq> []) \<and>
       (\<exists>a. field r ''Annual Dividend Yield'' = Some (PStr a) \<and> a \<noteq> [])"
proof (cases rule: body_cases [of s up])
  case (1 e)
  then show ?thesis by (simp add: failed_record_def field_def)
next
  case (2 u v)
  have b: "\<not> isl (get_stock_info_body s up)"
    using body_Inr [OF 2(1) 2(2), of s] by simp
  have n: "fst (get_info up) =
      (case info up of
         Inl e \<Rightarrow> PStr ''N/A''
       | Inr d \<Rightarrow> (case d ''shortName'' of None \<Rightarrow> PStr ''N/A'' | Some v \<Rightarrow> v))"
    by (simp add: get_info_def dict_get_def split: sum.splits)
  have "fst (get_dividend_info up (snd (get_info up))) \<noteq> []"
    by (simp add: dividend_offered_cases)
  then show ?thesis
    using 2(3) body_Inr [OF 2(1) 2(2), of s] b n
    by (simp add: field_def strftime_ymd_nonempty split: pyval.splits option.splits)
qed

text \<open>
  Claim C4 as stated fails for the Company Name: with a profile that stores \<^verbatim>\<open>None\<close>
  under \<^verbatim>\<open>shortName\<close>, line 32 takes that \<^verbatim>\<open>None\<close>, and the field is neither a name
  nor the sentinel "N/A".
\<close>

theorem six_fields_counterexample:
  "get_stock_info ''AAPL'' (offline\<lparr>info := Inr [''shortName'' \<mapsto> PNone]\<rparr>)
     = Inr [(''Stock Symbol'', PStr ''AAPL''),
            (''Company Name'', PNone),
            (''Next Earnings Report Date'', PStr ''N/A''),
            (''Dividend Offered'', PStr ''No''),
            (''Ex-Dividend Date'', PStr ''N/A''),
            (''Annual Dividend Yield'', PStr ''N/A'')]
   \<and> PNone \<noteq> PStr ''N/A''
   \<and> \<not> truthy PNone"
  by code_simp

section \<open>Every fetch raises\<close>

text \<open>
  Claim C8, as the script has it: when \<^verbatim>\<open>yf.Ticker\<close> returns and the fetches of the
  profile, of both earnings sources and of the dividends all raise, the record is "N/A" in
  every field except Stock Symbol, which is the input, and Dividend Offered, which keeps
  its initial value "No".
\<close>

theorem all_facets_throw:
  "new_ticker up = Inr () \<and> info up = Inl e1 \<and> calendar up = Inl e2 \<and>
   earnings_dates up = Inl e3 \<and> dividends up = Inl e4 \<longrightarrow>
   get_stock_info s up =
     Inr [(''Stock Symbol'', PStr s),
          (''Company Name'', PStr ''N/A''),
          (''Next Earnings Report Date'', PStr ''N/A''),
          (''Dividend Offered'', PStr ''No''),
          (''Ex-Dividend Date'', PStr ''N/A''),
          (''Annual Dividend Yield'', PStr ''N/A'')]"
  by (simp add: get_stock_info_def get_stock_info_body_def get_info_def get_dividend_info_def
      get_earnings_date_def calendar_method_def earnings_dates_method_def validate_earnings_def
      validate_ex_dividend_def)

text \<open>The theorem for claim C8 at the symbol for which every fetch raises.\<close>

theorem all_facets_throw_witness:
  "new_ticker offline = Inr () \<and> info offline = Inl (Error ''HTTP Error 404'') \<and>
   calendar offline = Inl (Error ''HTTP Error 404'') \<and>
   earnings_dates offline = Inl (Error ''HTTP Error 404'') \<and>
   dividends offline = Inl (Error ''HTTP Error 404'') \<and>
   get_stock_info ''MSFT'' offline =
     Inr [(''Stock Symbol'', PStr ''MSFT''),
          (''Company Name'', PStr ''N/A''),
          (''Next Earnings Report Date'', PStr ''N/A''),
          (''Dividend Offered'', PStr ''No''),
          (''Ex-Dividend Date'', PStr ''N/A''),
          (''Annual Dividend Yield'', PStr ''N/A'')]"
proof -
  have h: "new_ticker offline = Inr () \<and> info offline = Inl (Error ''HTTP Error 404'') \<and>
    calendar offline = Inl (Error ''HTTP Error 404'') \<and>
    earnings_dates offline = Inl (Error ''HTTP Error 404'') \<and>
    dividends offline = Inl (Error ''HTTP Error 404'')"
    by (simp add: offline_def)
  from all_facets_throw [of offline "Error ''HTTP Error 404''" "Error ''HTTP Error 404''"
      "Error ''HTTP Error 404''" "Error ''HTTP Error 404''" "''MSFT''"] h
  show ?thesis by blast
qed

text \<open>
  Claim C8 as stated fails: with every fetch raising the record is not the all-"N/A"
  record of the outer handler, since Dividend Offered is "No".
\<close>

theorem all_facets_throw_counterexample:
  "get_stock_info ''MSFT'' offline \<noteq> Inr (failed_record ''MSFT'') \<and>
   field (failed_record ''MSFT'') ''Dividend Offered'' = Some (PStr ''N/A'') \<and>
   get_stock_info ''MSFT'' offline =
     Inr [(''Stock Symbol'', PStr ''MSFT''),
          (''Company Name'', PStr ''N/A''),
          (''Next Earnings Report Date'', PStr ''N/A''),
          (''Dividend Offered'', PStr ''No''),
          (''Ex-Dividend Date'', PStr ''N/A''),
          (''Annual Dividend Yield'', PStr ''N/A'')]"
  by code_simp

section \<open>The annualized dividend rate\<close>

text \<open>
  Claim C1 on a history of five payments, oldest first, of 0.10, 0.20, 0.30, 0.40 and 0.50:
  \<^verbatim>\<open>head(4)\<close> sums the four oldest payments, 1.00, where the four most recent ones sum
  to 1.40. With a price of 100 the record shows a yield of "1.00%".
\<close>

theorem annual_div_rate_sums_oldest_four:
  "annual_div_rate [1 / 10, 1 / 5, 3 / 10, 2 / 5, 1 / 2] = 1
   \<and> sum_list (drop 1 [1 / 10, 1 / 5, 3 / 10, 2 / 5, 1 / 2 :: rat]) = 7 / 5
   \<and> get_stock_info ''AAPL''
        (offline\<lparr>info := Inr [''regularMarketPrice'' \<mapsto> PNum 100],
                 dividends := Inr [(at_midnight_ny 19671, 1 / 10), (at_midnight_ny 19762, 1 / 5),
                                   (at_midnight_ny 19853, 3 / 10), (at_midnight_ny 19947, 2 / 5),
                                   (at_midnight_ny 20035, 1 / 2)]\<rparr>)
     = Inr [(''Stock Symbol'', PStr ''AAPL''),
            (''Company Name'', PStr ''N/A''),
            (''Next Earnings Report Date'', PStr ''N/A''),
            (''Dividend Offered'', PStr ''Yes''),
            (''Ex-Dividend Date'', PStr ''2024-11-08''),
            (''Annual Dividend Yield'', PStr ''1.00%'')]"
  by code_simp

section \<open>The price of the yield\<close>




text \<open>
  Claim C10: when the dividend history is not empty and the profile gives a number as the
  price, a price of zero leaves the yield unset without dividing, a yield of zero is set,
  and in both cases the field "Annual Dividend Yield" is "N/A".
\<close>

theorem zero_yield_is_NA:
  "snd (get_info up) = d \<and> dividends up = Inr divs \<and> divs \<noteq> [] \<and> latest_price d = PNum p \<and>
   (p = 0 \<or> annual_div_rate (map snd divs) / p * 100 = 0) \<longrightarrow>
   dividend_yield (annual_div_rate (map snd divs)) (PNum p) =
     (if p = 0 then Inr None else Inr (Some 0)) \<and>
   (\<exists>r. get_stock_info s up = Inr r \<and> field r ''Annual Dividend Yield'' = Some (PStr ''N/A''))"
proof (intro impI, elim conjE)
  assume a: "snd (get_info up) = d" "dividends up = Inr divs" "divs \<noteq> []" "latest_price d = PNum p"
    "p = 0 \<or> annual_div_rate (map snd divs) / p * 100 = 0"
  have y: "dividend_yield (annual_div_rate (map snd divs)) (PNum p) =
      (if p = 0 then Inr None else Inr (Some 0))"
    using a(5) by (auto simp add: dividend_yield_def)
  have "snd (snd (get_dividend_info up d)) = (if p = 0 then None else Some 0)"
    using yield_of_dividends [OF a(2) a(3), of d] a(4) y by simp
  then have "\<exists>r. get_stock_info s up = Inr r \<and> field r ''Annual Dividend Yield'' = Some (PStr ''N/A'')"
    using yield_unset [of up s] a(1) by (simp split: if_splits)
  then show "dividend_yield (annual_div_rate (map snd divs)) (PNum p) =
     (if p = 0 then Inr None else Inr (Some 0)) \<and>
   (\<exists>r. get_stock_info s up = Inr r \<and> field r ''Annual Dividend Yield'' = Some (PStr ''N/A''))"
    using y by blast
qed

text \<open>
  The theorem for claim C10 with one payment of 0.25 at a price of 0, and with one
  payment of 0 at a price of 100.
\<close>

theorem zero_yield_is_NA_witness:
  "snd (get_info (offline\<lparr>info := Inr [''regularMarketPrice'' \<mapsto> PNum 0],
       dividends := Inr [(at_midnight_ny 20035, 1 / 4)]\<rparr>)) = [''regularMarketPrice'' \<mapsto> PNum 0]
   \<and> latest_price [''regularMarketPrice'' \<mapsto> PNum 0] = PNum 0
   \<and> dividend_yield (annual_div_rate (map snd [(at_midnight_ny 20035, 1 / 4 :: rat)])) (PNum 0) = Inr None
   \<and> (\<exists>r. get_stock_info ''TSLA'' (offline\<lparr>info := Inr [''regularMarketPrice'' \<mapsto> PNum 0],
         dividends := Inr [(at_midnight_ny 20035, 1 / 4)]\<rparr>) = Inr r
        \<and> field r ''Annual Dividend Yield'' = Some (PStr ''N/A''))
   \<and> snd (get_info (offline\<lparr>info := Inr [''regularMarketPrice'' \<mapsto> PNum 100],
       dividends := Inr [(at_midnight_ny 20035, 0)]\<rparr>)) = [''regularMarketPrice'' \<mapsto> PNum 100]
   \<and> latest_price [''regularMarketPrice'' \<mapsto> PNum 100] = PNum 100
   \<and> annual_div_rate (map snd [(at_midnight_ny 20035, 0 :: rat)]) / 100 * 100 = 0
   \<and> dividend_yield (annual_div_rate (map snd [(at_midnight_ny 20035, 0 :: rat)])) (PNum 100) = Inr (Some 0)
   \<and> (\<exists>r. get_stock_info ''TSLA'' (offline\<lparr>info := Inr [''regularMarketPrice'' \<mapsto> PNum 100],
         dividends := Inr [(at_midnight_ny 20035, 0)]\<rparr>) = Inr r
        \<and> field r ''Annual Dividend Yield'' = Some (PStr ''N/A''))"
proof -
  let ?d0 = "[''regularMarketPrice'' \<mapsto> PNum 0]"
  let ?d1 = "[''regularMarketPrice'' \<mapsto> PNum 100]"
  let ?up0 = "offline\<lparr>info := Inr ?d0, dividends := Inr [(at_midnight_ny 20035, 1 / 4)]\<rparr>"
  let ?up1 = "offline\<lparr>info := Inr ?d1, dividends := Inr [(at_midnight_ny 20035, 0)]\<rparr>"
  have h0: "snd (get_info ?up0) = ?d0 \<and> dividends ?up0 = Inr [(at_midnight_ny 20035, 1 / 4)] \<and>
      [(at_midnight_ny 20035, 1 / 4 :: rat)] \<noteq> [] \<and> latest_price ?d0 = PNum 0 \<and>
      ((0::rat) = 0 \<or> annual_div_rate (map snd [(at_midnight_ny 20035, 1 / 4 :: rat)]) / 0 * 100 = 0)"
    by (simp add: get_info_def latest_price_def dict_get_def)
  have h1: "snd (get_info ?up1) = ?d1 \<and> dividends ?up1 = Inr [(at_midnight_ny 20035, 0)] \<and>
      [(at_midnight_ny 20035, 0 :: rat)] \<noteq> [] \<and> latest_price ?d1 = PNum 100 \<and>
      ((100::rat) = 0 \<or> annual_div_rate (map snd [(at_midnight_ny 20035, 0 :: rat)]) / 100 * 100 = 0)"
    by (simp add: get_info_def latest_price_def dict_get_def annual_div_rate_def)
  show ?thesis
    using zero_yield_is_NA [of ?up0 ?d0 "[(at_midnight_ny 20035, 1 / 4)]" 0 "''TSLA''"] h0
      zero_yield_is_NA [of ?up1 ?d1 "[(at_midnight_ny 20035, 0)]" 100 "''TSLA''"] h1
    by simp
qed

section \<open>Two payments of 0.50\<close>

text \<open>
  Claim C7, as the script has it: when no exception escapes the inner handlers and the
  dividend history has exactly two payments of 0.50, the annualized rate is 2 and Dividend
  Offered is "Yes". If the profile fetch raises, the Company Name is "N/A" and, the price
  being read from the profile only, the yield is "N/A". If the profile is fetched, has no
  short name and gives the price 100, the Company Name is "N/A" and the yield is "2.00%".
\<close>

theorem two_payments_scenario:
  "new_ticker up = Inr () \<and> validate_earnings up (get_earnings_date up) = Inr v \<and>
   dividends up = Inr [(t1, 1 / 2), (t2, 1 / 2)] \<longrightarrow>
   annual_div_rate (map snd [(t1, 1 / 2), (t2, 1 / 2)]) = 2 \<and>
   (\<exists>r. get_stock_info s up = Inr r \<and>
      field r ''Dividend Offered'' = Some (PStr ''Yes'') \<and>
      (if isl (info up) then
         field r ''Company Name'' = Some (PStr ''N/A'') \<and>
         field r ''Annual Dividend Yield'' = Some (PStr ''N/A'')
       else if projr (info up) ''shortName'' = None \<and> latest_price (projr (info up)) = PNum 100 then
         field r ''Company Name'' = Some (PStr ''N/A'') \<and>
         field r ''Annual Dividend Yield'' = Some (PStr ''2.00%'')
       else True))"
proof (intro impI, elim conjE)
  assume a: "new_ticker up = Inr ()" "validate_earnings up (get_earnings_date up) = Inr v"
    "dividends up = Inr [(t1, 1 / 2), (t2, 1 / 2)]"
  have rate: "annual_div_rate (map snd [(t1, 1 / 2), (t2, 1 / 2)]) = 2"
    by (simp add: annual_div_rate_def)
  have r: "get_stock_info s up = get_stock_info_body s up"
    using body_Inr [OF a(1) a(2), of s] by (simp add: get_stock_info_def)
  have y: "snd (snd (get_dividend_info up d)) =
     (case dividend_yield 2 (latest_price d) of Inl e \<Rightarrow> None | Inr y \<Rightarrow> y)" for d
    using yield_of_dividends [OF a(3), of d] rate by simp
  have off: "fst (get_dividend_info up d) = ''Yes''" for d
    using a(3) by (simp add: dividend_offered_cases)
  show "annual_div_rate (map snd [(t1, 1 / 2), (t2, 1 / 2)]) = 2 \<and>
   (\<exists>r. get_stock_info s up = Inr r \<and>
      field r ''Dividend Offered'' = Some (PStr ''Yes'') \<and>
      (if isl (info up) then
         field r ''Company Name'' = Some (PStr ''N/A'') \<and>
         field r ''Annual Dividend Yield'' = Some (PStr ''N/A'')
       else if projr (info up) ''shortName'' = None \<and> latest_price (projr (info up)) = PNum 100 then
         field r ''Company Name'' = Some (PStr ''N/A'') \<and>
         field r ''Annual Dividend Yield'' = Some (PStr ''2.00%'')
       else True))"
  proof (cases "info up")
    case (Inl e)
    then have "get_info up = (PStr ''N/A'', Map.empty)" by (simp add: get_info_def)
    then show ?thesis
      using rate r body_Inr [OF a(1) a(2), of s] off y [of Map.empty] Inl
      by (simp add: field_def latest_price_def dict_get_def dividend_yield_def)
  next
    case (Inr d)
    then have "get_info up = (dict_get d ''shortName'' (PStr ''N/A''), d)" by (simp add: get_info_def)
    then show ?thesis
      using rate r body_Inr [OF a(1) a(2), of s] off y [of d] Inr
      by (auto simp add: field_def dict_get_def dividend_yield_def format_2f_2)
  qed
qed

text \<open>
  The theorem for claim C7 on the two inputs: the profile fetch raises, and the profile
  holds the price 100 only.
\<close>

theorem two_payments_scenario_witness:
  "new_ticker (offline\<lparr>dividends := Inr [(at_midnight_ny 19947, 1 / 2), (at_midnight_ny 20035, 1 / 2)]\<rparr>)
     = Inr ()
   \<and> validate_earnings
        (offline\<lparr>dividends := Inr [(at_midnight_ny 19947, 1 / 2), (at_midnight_ny 20035, 1 / 2)]\<rparr>)
        (get_earnings_date
          (offline\<lparr>dividends := Inr [(at_midnight_ny 19947, 1 / 2), (at_midnight_ny 20035, 1 / 2)]\<rparr>))
     = Inr PNone
   \<and> annual_div_rate (map snd [(at_midnight_ny 19947, 1 / 2 :: rat), (at_midnight_ny 20035, 1 / 2)]) = 2
   \<and> (\<exists>r. get_stock_info ''JPM''
          (offline\<lparr>dividends := Inr [(at_midnight_ny 19947, 1 / 2), (at_midnight_ny 20035, 1 / 2)]\<rparr>)
          = Inr r
        \<and> field r ''Dividend Offered'' = Some (PStr ''Yes'')
        \<and> field r ''Company Name'' = Some (PStr ''N/A'')
        \<and> field r ''Annual Dividend Yield'' = Some (PStr ''N/A''))
   \<and> new_ticker (offline\<lparr>info := Inr [''regularMarketPrice'' \<mapsto> PNum 100],
        dividends := Inr [(at_midnight_ny 19947, 1 / 2), (at_midnight_ny 20035, 1 / 2)]\<rparr>) = Inr ()
   \<and> (\<exists>r. get_stock_info ''JPM''
          (offline\<lparr>info := Inr [''regularMarketPrice'' \<mapsto> PNum 100],
             dividends := Inr [(at_midnight_ny 19947, 1 / 2), (at_midnight_ny 20035, 1 / 2)]\<rparr>)
          = Inr r
        \<and> field r ''Dividend Offered'' = Some (PStr ''Yes'')
        \<and> field r ''Company Name'' = Some (PStr ''N/A'')
        \<and> field r ''Annual Dividend Yield'' = Some (PStr ''2.00%''))"
proof -
  let ?divs = "[(at_midnight_ny 19947, 1 / 2 :: rat), (at_midnight_ny 20035, 1 / 2)]"
  let ?up0 = "offline\<lparr>dividends := Inr ?divs\<rparr>"
  let ?up1 = "offline\<lparr>info := Inr [''regularMarketPrice'' \<mapsto> PNum 100], dividends := Inr ?divs\<rparr>"
  have e0: "get_earnings_date ?up0 = PNone" and e1: "get_earnings_date ?up1 = PNone"
    by (simp_all add: get_earnings_date_def calendar_method_def earnings_dates_method_def offline_def)
  have h0: "new_ticker ?up0 = Inr () \<and> validate_earnings ?up0 (get_earnings_date ?up0) = Inr PNone \<and>
      dividends ?up0 = Inr ?divs"
    unfolding e0 by (simp add: offline_def validate_earnings_def)
  have h1: "new_ticker ?up1 = Inr () \<and> validate_earnings ?up1 (get_earnings_date ?up1) = Inr PNone \<and>
      dividends ?up1 = Inr ?divs"
    unfolding e1 by (simp add: offline_def validate_earnings_def)
  have i0: "isl (info ?up0)"
    by (simp add: offline_def)
  have i1: "\<not> isl (info ?up1) \<and> projr (info ?up1) ''shortName'' = None \<and>
      latest_price (projr (info ?up1)) = PNum 100"
    by (simp add: latest_price_def dict_get_def)
  from two_payments_scenario [of ?up0 PNone "at_midnight_ny 19947" "at_midnight_ny 20035" "''JPM''"] h0 i0
  have c0: "annual_div_rate (map snd ?divs) = 2 \<and>
      (\<exists>r. get_stock_info ''JPM'' ?up0 = Inr r
        \<and> field r ''Dividend Offered'' = Some (PStr ''Yes'')
        \<and> field r ''Company Name'' = Some (PStr ''N/A'')
        \<and> field r ''Annual Dividend Yield'' = Some (PStr ''N/A''))"
    by simp
  from two_payments_scenario [of ?up1 PNone "at_midnight_ny 19947" "at_midnight_ny 20035" "''JPM''"] h1 i1
  have c1: "\<exists>r. get_stock_info ''JPM'' ?up1 = Inr r
        \<and> field r ''Dividend Offered'' = Some (PStr ''Yes'')
        \<and> field r ''Company Name'' = Some (PStr ''N/A'')
        \<and> field r ''Annual Dividend Yield'' = Some (PStr ''2.00%'')"
    by simp
  show ?thesis using h0 h1 c0 c1 by blast
qed

text \<open>
  Claim C7 as stated fails: when the profile fetch raises there is no price, and the
  yield of two payments of 0.50 is "N/A", not "2.00%".
\<close>

theorem two_payments_scenario_counterexample:
  "get_stock_info ''JPM''
     (offline\<lparr>dividends := Inr [(at_midnight_ny 19947, 1 / 2), (at_midnight_ny 20035, 1 / 2)]\<rparr>)
     = Inr [(''Stock Symbol'', PStr ''JPM''),
            (''Company Name'', PStr ''N/A''),
            (''Next Earnings Report Date'', PStr ''N/A''),
            (''Dividend Offered'', PStr ''Yes''),
            (''Ex-Dividend Date'', PStr ''2024-11-08''),
            (''Annual Dividend Yield'', PStr ''N/A'')]
   \<and> isl (info (offline\<lparr>dividends := Inr [(at_midnight_ny 19947, 1 / 2), (at_midnight_ny 20035, 1 / 2)]\<rparr>))"
  by code_simp

section \<open>Dates in the distant future are dropped\<close>

text \<open>
  Claim C5: a resolved earnings date (a \<^verbatim>\<open>Timestamp\<close>, taken as it is when aware and
  localized to America/New\_York when naive) whose instant is more than 180 days after the
  instant "now" is reset to \<^verbatim>\<open>None\<close>, and the field "Next Earnings Report Date" is
  "N/A". A resolved ex-dividend date whose midnight in America/New\_York is more than
  180 days after "now" is reset, and the field "Ex-Dividend Date" is "N/A".
\<close>

theorem far_future_dates_suppressed:
  "(get_earnings_date up = PTimestamp t \<and> to_utc (ny_tz up) t = Inr u \<and>
    now_validate up + days_180 < u \<longrightarrow>
      validate_earnings up (get_earnings_date up) = Inr PNone \<and>
      (\<exists>r. get_stock_info s up = Inr r \<and>
           field r ''Next Earnings Report Date'' = Some (PStr ''N/A''))) \<and>
   (fst (snd (get_dividend_info up (snd (get_info up)))) = Some day \<and>
    now_validate up + days_180 < localize (ny_tz up) (day * day_ns) \<longrightarrow>
      validate_ex_dividend up (Some day) = None \<and>
      (\<exists>r. get_stock_info s up = Inr r \<and>
           field r ''Ex-Dividend Date'' = Some (PStr ''N/A'')))"
proof (intro conjI impI; elim conjE)
  assume a: "get_earnings_date up = PTimestamp t" "to_utc (ny_tz up) t = Inr u"
    "now_validate up + days_180 < u"
  then show v: "validate_earnings up (get_earnings_date up) = Inr PNone"
    by (simp add: validate_earnings_def max_future_date_def)
  show "\<exists>r. get_stock_info s up = Inr r \<and>
           field r ''Next Earnings Report Date'' = Some (PStr ''N/A'')"
  proof (cases rule: body_cases [of s up])
    case (1 e)
    then show ?thesis by (simp add: failed_record_def field_def)
  next
    case (2 u' v')
    then show ?thesis
      using v body_Inr [OF 2(1) 2(2), of s] by (simp add: field_def)
  qed
next
  assume a: "fst (snd (get_dividend_info up (snd (get_info up)))) = Some day"
    "now_validate up + days_180 < localize (ny_tz up) (day * day_ns)"
  then show v: "validate_ex_dividend up (Some day) = None"
    by (simp add: validate_ex_dividend_def max_future_date_def)
  show "\<exists>r. get_stock_info s up = Inr r \<and>
           field r ''Ex-Dividend Date'' = Some (PStr ''N/A'')"
  proof (cases rule: body_cases [of s up])
    case (1 e)
    then show ?thesis by (simp add: failed_record_def field_def)
  next
    case (2 u' v')
    then show ?thesis
      using v a(1) body_Inr [OF 2(1) 2(2), of s] by (simp add: field_def)
  qed
qed

text \<open>
  The theorem for claim C5 on 15 January 2025 with both dates on 12 December 2025.
\<close>

theorem far_future_dates_suppressed_witness:
  "get_earnings_date far_dates = PTimestamp (Naive (20434 * day_ns + 16 * hour_ns)) \<and>
   to_utc (ny_tz far_dates) (Naive (20434 * day_ns + 16 * hour_ns)) = Inr (20434 * day_ns + 21 * hour_ns) \<and>
   now_validate far_dates + days_180 < 20434 * day_ns + 21 * hour_ns \<and>
   validate_earnings far_dates (get_earnings_date far_dates) = Inr PNone \<and>
   (\<exists>r. get_stock_info ''V'' far_dates = Inr r \<and>
        field r ''Next Earnings Report Date'' = Some (PStr ''N/A'')) \<and>
   fst (snd (get_dividend_info far_dates (snd (get_info far_dates)))) = Some 20434 \<and>
   now_validate far_dates + days_180 < localize (ny_tz far_dates) (20434 * day_ns) \<and>
   validate_ex_dividend far_dates (Some 20434) = None \<and>
   (\<exists>r. get_stock_info ''V'' far_dates = Inr r \<and> field r ''Ex-Dividend Date'' = Some (PStr ''N/A''))"
proof -
  have h1: "get_earnings_date far_dates = PTimestamp (Naive (20434 * day_ns + 16 * hour_ns)) \<and>
     to_utc (ny_tz far_dates) (Naive (20434 * day_ns + 16 * hour_ns)) = Inr (20434 * day_ns + 21 * hour_ns) \<and>
     now_validate far_dates + days_180 < 20434 * day_ns + 21 * hour_ns"
    by code_simp
  have h2: "fst (snd (get_dividend_info far_dates (snd (get_info far_dates)))) = Some 20434 \<and>
     now_validate far_dates + days_180 < localize (ny_tz far_dates) (20434 * day_ns)"
    by code_simp
  show ?thesis
    using far_future_dates_suppressed [of far_dates "Naive (20434 * day_ns + 16 * hour_ns)" "20434 * day_ns + 21 * hour_ns" "''V''" 20434]
      h1 h2
    by blast
qed

section \<open>Which earnings date is taken\<close>

text \<open>
  Claim C6 on a table of earnings dates listed newest first, read on 15 January 2025 with
  no calendar: the dates strictly after "now" are 1 May and 30 January, in that order, and
  line 65 takes the first of them, 1 May, where the earliest future date is 30 January.
  The record shows "2025-05-01" as the next earnings report date.
\<close>

theorem earnings_date_takes_first_row:
  "calendar_method newest_first = PNone
   \<and> future_dates (ny_tz newest_first) (now_earnings newest_first)
        (AwareIndex [(20209 * day_ns + 20 * hour_ns, - 4 * hour_ns),
                     (20118 * day_ns + 21 * hour_ns, - 5 * hour_ns),
                     (20026 * day_ns + 20 * hour_ns, - 4 * hour_ns)])
       = Inr [Aware (20209 * day_ns + 20 * hour_ns) (- 4 * hour_ns),
              Aware (20118 * day_ns + 21 * hour_ns) (- 5 * hour_ns)]
   \<and> get_earnings_date newest_first
       = PTimestamp (Aware (20209 * day_ns + 20 * hour_ns) (- 4 * hour_ns))
   \<and> now_earnings newest_first < 20118 * day_ns + 21 * hour_ns
   \<and> 20118 * day_ns + 21 * hour_ns < 20209 * day_ns + 20 * hour_ns
   \<and> get_stock_info ''AAPL'' newest_first
       = Inr [(''Stock Symbol'', PStr ''AAPL''),
              (''Company Name'', PStr ''N/A''),
              (''Next Earnings Report Date'', PStr ''2025-05-01''),
              (''Dividend Offered'', PStr ''No''),
              (''Ex-Dividend Date'', PStr ''N/A''),
              (''Annual Dividend Yield'', PStr ''N/A'')]"
  by code_simp

section \<open>The batch driver\<close>



end
